theory Spec2Isabelle
  imports Complex_Main "HOL-Library.Word"
begin

section \<open>Snapshot comparators of playwright-core (utils/comparators.ts)\<close>

text \<open>
  The module exports \<^verbatim>\<open>getComparator\<close>, which picks one of three comparators by MIME type:
  \<^verbatim>\<open>compareImages\<close>, \<^verbatim>\<open>compareText\<close> and \<^verbatim>\<open>compareBuffersOrStrings\<close>. A comparator
  returns \<^verbatim>\<open>null\<close> on a match and an object \<^verbatim>\<open>{ errorMessage, diff? }\<close> on a mismatch;
  \<^verbatim>\<open>compareImages\<close> can also throw.
\<close>

subsection \<open>Values\<close>

type_synonym byte = "8 word"
type_synonym buffer = "byte list"

text \<open>
  The first argument of a comparator is typed \<^verbatim>\<open>Buffer | string\<close>, and every comparator
  tests it at run time (\<^verbatim>\<open>typeof\<close>, \<^verbatim>\<open>instanceof Buffer\<close>, truthiness), so a value of
  any other kind can arrive: \<open>JSOther\<close> stands for \<^verbatim>\<open>undefined\<close>, \<^verbatim>\<open>null\<close>, numbers and
  objects that are not Buffers.
\<close>

datatype jsval = JSBuffer buffer | JSString string | JSOther

text \<open>\<^verbatim>\<open>ComparatorResult = { diff?: Buffer; errorMessage: string; } | null\<close>\<close>

record mismatch =
  errorMessage :: string
  diff :: "buffer option"

type_synonym ComparatorResult = "mismatch option"

text \<open>
  \<open>Error m\<close> is the \<^verbatim>\<open>new Error(m)\<close> that \<^verbatim>\<open>compareImages\<close> throws itself;
  \<open>External m\<close> is an exception with message \<open>m\<close> that escapes from a collaborator (a
  codec or a pixel-difference kernel) and propagates through the comparator, which catches
  nothing.
\<close>

datatype exn = Error string | External string

definition external :: "string + 'a \<Rightarrow> exn + 'a" where
  "external r = (case r of Inl m \<Rightarrow> Inl (External m) | Inr v \<Rightarrow> Inr v)"

text \<open>A decoded image: \<^verbatim>\<open>{ width, height, data }\<close>.\<close>

record image =
  width :: nat
  height :: nat
  data :: buffer

subsection \<open>Numbers\<close>

text \<open>
  A JavaScript number is an IEEE 754 double. A finite number is modelled by the real it
  denotes, and each arithmetic operation rounds its exact result to the nearest double, ties
  to even, with a 53-bit significand (\<open>fl\<close>). The exponent range of \<open>fl\<close> is not bounded:
  the counts, the dimensions and their quotients stay far from the overflow and the
  subnormal range. The one product that takes a factor from the caller is rounded by
  \<open>round_double\<close> below, which has both.
\<close>

definition round_even :: "real \<Rightarrow> int" where
  "round_even x =
     (if x - of_int \<lfloor>x\<rfloor> < 1 / 2 then \<lfloor>x\<rfloor>
      else if 1 / 2 < x - of_int \<lfloor>x\<rfloor> then \<lfloor>x\<rfloor> + 1
      else if even \<lfloor>x\<rfloor> then \<lfloor>x\<rfloor> else \<lfloor>x\<rfloor> + 1)"

text \<open>
  Rounding a positive real: scale by powers of two into \<open>[2^52, 2^53)\<close>, round to an
  integer there, and scale back.
\<close>

function fl_pos :: "real \<Rightarrow> real" where
  "fl_pos x =
     (if x \<le> 0 then 0
      else if 2 ^ 53 \<le> x then 2 * fl_pos (x / 2)
      else if x < 2 ^ 52 then fl_pos (2 * x) / 2
      else of_int (round_even x))"
  by pat_completeness auto
termination
proof -
  have half: "\<lceil>y / 2\<rceil> < \<lceil>y\<rceil>" if "1 < y" for y :: real
  proof -
    have c2: "2 \<le> \<lceil>y\<rceil>" using that by linarith
    have "\<lceil>y\<rceil> \<le> 2 * ((\<lceil>y\<rceil> + 1) div 2)" by presburger
    then have "(of_int \<lceil>y\<rceil> :: real) \<le> of_int (2 * ((\<lceil>y\<rceil> + 1) div 2))"
      by (rule of_int_le_iff[THEN iffD2])
    then have "of_int \<lceil>y\<rceil> / 2 \<le> (of_int ((\<lceil>y\<rceil> + 1) div 2) :: real)" by simp
    moreover have "y / 2 \<le> of_int \<lceil>y\<rceil> / 2" by simp
    ultimately have "y / 2 \<le> of_int ((\<lceil>y\<rceil> + 1) div 2)" by linarith
    then have "\<lceil>y / 2\<rceil> \<le> (\<lceil>y\<rceil> + 1) div 2" by (simp add: ceiling_le_iff)
    moreover have "(\<lceil>y\<rceil> + 1) div 2 < \<lceil>y\<rceil>" using c2 by presburger
    ultimately show ?thesis by linarith
  qed
  let ?m = "\<lambda>x::real. if 2 ^ 53 \<le> x then nat \<lceil>x\<rceil>
                     else if 0 < x \<and> x < 2 ^ 52 then nat \<lceil>2 ^ 52 / x\<rceil> else 0"
  show ?thesis
  proof (relation "measure ?m")
    show "wf (measure ?m)" by simp
  next
    fix x :: real
    assume a: "\<not> x \<le> 0" "2 ^ 53 \<le> x"
    have x1: "1 < x" using a(2) by simp
    have "\<lceil>x / 2\<rceil> < \<lceil>x\<rceil>" using x1 by (rule half)
    moreover have "0 < \<lceil>x\<rceil>" using x1 by simp
    ultimately show "(x / 2, x) \<in> measure ?m" using a by auto
  next
    fix x :: real
    assume a: "\<not> x \<le> 0" "\<not> 2 ^ 53 \<le> x" "x < 2 ^ 52"
    define y where "y = 2 ^ 52 / x"
    have y1: "1 < y" using a by (simp add: y_def)
    have e: "2 ^ 52 / (2 * x) = y / 2" by (simp add: y_def)
    have l: "\<lceil>y / 2\<rceil> < \<lceil>y\<rceil>" using y1 by (rule half)
    have p: "0 < \<lceil>y\<rceil>" using y1 by simp
    show "(2 * x, x) \<in> measure ?m" using a e l p unfolding y_def by auto
  qed
qed

declare fl_pos.simps [simp del]

definition fl :: "real \<Rightarrow> real" where
  "fl x = (if x < 0 then - fl_pos (- x) else fl_pos x)"

definition js_times :: "real \<Rightarrow> real \<Rightarrow> real" where
  "js_times a b = fl (a * b)"

text \<open>
  \<open>number\<close> adds the three values that are not finite. They reach the module in two ways:
  the options are numbers that the module never validates, so a caller can pass any of
  them, and the division that computes \<^verbatim>\<open>ratio\<close> has the pixel count of a decoded image
  as its divisor. A zero has no sign here: the module never observes the sign of a zero.
\<close>

datatype number = Num real | PosInfinity | NegInfinity | NaN

text \<open>
  An option is a number of any magnitude, so the product with an option is rounded over
  the whole range of the doubles: below \<open>2^-1022\<close> the doubles are the multiples of
  \<open>2^-1074\<close>, and a result that rounds to \<open>2^1024\<close> or beyond is an infinity.
\<close>

definition round_double :: "real \<Rightarrow> number" where
  "round_double x =
     (if \<bar>x\<bar> < 1 / 2 ^ 1022 then Num (of_int (round_even (x * 2 ^ 1074)) / 2 ^ 1074)
      else if 2 ^ 1024 \<le> fl x then PosInfinity
      else if fl x \<le> - (2 ^ 1024) then NegInfinity
      else Num (fl x))"

text \<open>
  \<^verbatim>\<open>a * b\<close> for a finite \<open>a\<close>, as in \<^verbatim>\<open>width * height * maxDiffPixelRatio\<close>, whose left
  factor is the finite product of the two dimensions: an infinity times zero is NaN.
\<close>

fun times_number :: "real \<Rightarrow> number \<Rightarrow> number" where
  "times_number a (Num b) = round_double (a * b)"
| "times_number a PosInfinity =
     (if a = 0 then NaN else if 0 < a then PosInfinity else NegInfinity)"
| "times_number a NegInfinity =
     (if a = 0 then NaN else if 0 < a then NegInfinity else PosInfinity)"
| "times_number a NaN = NaN"

text \<open>\<^verbatim>\<open>Math.min(a, b)\<close>: NaN as soon as one argument is NaN.\<close>

fun Math_min :: "number \<Rightarrow> number \<Rightarrow> number" where
  "Math_min NaN b = NaN"
| "Math_min a NaN = NaN"
| "Math_min NegInfinity b = NegInfinity"
| "Math_min a NegInfinity = NegInfinity"
| "Math_min PosInfinity b = b"
| "Math_min a PosInfinity = a"
| "Math_min (Num a) (Num b) = Num (min a b)"

text \<open>\<^verbatim>\<open>a < b\<close> and \<^verbatim>\<open>a <= b\<close>: false as soon as one operand is NaN.\<close>

fun number_less :: "number \<Rightarrow> number \<Rightarrow> bool" where
  "number_less (Num a) (Num b) = (a < b)"
| "number_less (Num a) PosInfinity = True"
| "number_less NegInfinity (Num b) = True"
| "number_less NegInfinity PosInfinity = True"
| "number_less a b = False"


definition js_divide :: "real \<Rightarrow> real \<Rightarrow> number" where
  "js_divide a b =
     (if b = 0 then (if a = 0 then NaN else if 0 < a then PosInfinity else NegInfinity)
      else Num (fl (a / b)))"

text \<open>
  Multiplying or dividing by the positive constant 100 and \<^verbatim>\<open>Math.ceil\<close> keep an
  infinity or a NaN as it is.
\<close>

fun number_apply :: "(real \<Rightarrow> real) \<Rightarrow> number \<Rightarrow> number" where
  "number_apply f (Num x) = Num (f x)"
| "number_apply f PosInfinity = PosInfinity"
| "number_apply f NegInfinity = NegInfinity"
| "number_apply f NaN = NaN"

definition Math_ceil :: "real \<Rightarrow> real" where
  "Math_ceil x = of_int \<lceil>x\<rceil>"

subsection \<open>Options\<close>

text \<open>
  \<^verbatim>\<open>ImageComparatorOptions = { threshold?: number, maxDiffPixels?: number,
  maxDiffPixelRatio?: number, comparator?: string }\<close>; an absent field is \<open>None\<close>, and the
  default \<^verbatim>\<open>options = {}\<close>, which a call without options gets, is the record of four
  \<open>None\<close>s. A numeric option holds any number, NaN and the infinities included: the type
  \<^verbatim>\<open>number\<close> admits them and the module checks no range.
\<close>

record ImageComparatorOptions =
  threshold :: "number option"
  maxDiffPixels :: "number option"
  maxDiffPixelRatio :: "number option"
  comparator :: "string option"

definition no_options :: ImageComparatorOptions where
  "no_options = \<lparr>threshold = None, maxDiffPixels = None, maxDiffPixelRatio = None, comparator = None\<rparr>"

subsection \<open>Printing numbers\<close>

text \<open>
  A template literal prints an integer below \<open>10^21\<close> in plain decimal digits, and
  \<^verbatim>\<open>toFixed(2)\<close> prints a number below \<open>10^21\<close> with two decimals: of the integers \<open>n\<close>
  with \<open>n / 100\<close> nearest to the number, the larger one. No count or dimension of an image
  that fits in memory reaches \<open>10^21\<close>, where JavaScript changes to the exponent notation.
\<close>

definition digit :: "nat \<Rightarrow> char" where
  "digit d = ''0123456789'' ! (d mod 10)"

function decimal :: "nat \<Rightarrow> string" where
  "decimal n = (if n < 10 then [digit n] else decimal (n div 10) @ [digit (n mod 10)])"
  by pat_completeness auto
termination
  by (relation "measure (\<lambda>n. n)") auto

declare decimal.simps [simp del]

definition toFixed2 :: "number \<Rightarrow> string" where
  "toFixed2 v =
     (case v of
        Num x \<Rightarrow>
          (if x < 0 then ''-'' else '''') @
          decimal (nat \<lfloor>\<bar>x\<bar> * 100 + 1 / 2\<rfloor> div 100) @ ''.'' @
          [digit (nat \<lfloor>\<bar>x\<bar> * 100 + 1 / 2\<rfloor> div 10), digit (nat \<lfloor>\<bar>x\<bar> * 100 + 1 / 2\<rfloor>)]
      | PosInfinity \<Rightarrow> ''Infinity''
      | NegInfinity \<Rightarrow> ''-Infinity''
      | NaN \<Rightarrow> ''NaN'')"


subsection \<open>Collaborators\<close>

text \<open>
  The module imports the PNG and JPEG codecs (\<^verbatim>\<open>PNG\<close>, \<^verbatim>\<open>jpegjs\<close>), two pixel-difference
  kernels (\<^verbatim>\<open>pixelmatch\<close> and \<^verbatim>\<open>compare\<close> of image_tools), the text-difference library
  \<^verbatim>\<open>diff_match_patch\<close> with its three operation tags, and the terminal styles \<^verbatim>\<open>colors\<close>.
  None of them is part of the module, so the model takes them as parameters, collected in
  one record. A codec or a kernel may throw: it returns \<open>Inl\<close> of the exception's message
  then. A kernel reads both pixel buffers, overwrites the buffer of the diff image and
  returns its count: the model returns the count together with the buffer as written. The
  text difference and the styles are functions that return.
  \<^verbatim>\<open>Buffer.prototype.toString('utf-8')\<close> belongs to the runtime and is a parameter too.
\<close>

record externals =
  PNG_sync_read :: "buffer \<Rightarrow> string + image"
  jpegjs_decode :: "buffer \<Rightarrow> real \<Rightarrow> string + image"
  PNG_new :: "nat \<Rightarrow> nat \<Rightarrow> image"
  PNG_sync_write :: "image \<Rightarrow> buffer"
  pixelmatch :: "buffer \<Rightarrow> buffer \<Rightarrow> buffer \<Rightarrow> nat \<Rightarrow> nat \<Rightarrow> number \<Rightarrow> string + nat \<times> buffer"
  image_tools_compare :: "buffer \<Rightarrow> buffer \<Rightarrow> buffer \<Rightarrow> nat \<Rightarrow> nat \<Rightarrow> number \<Rightarrow> string + nat \<times> buffer"
  diff_main :: "string \<Rightarrow> string \<Rightarrow> (int \<times> string) list"
  diff_cleanupSemantic :: "(int \<times> string) list \<Rightarrow> (int \<times> string) list"
  DIFF_INSERT :: int
  DIFF_DELETE :: int
  DIFF_EQUAL :: int
  colors_green :: "string \<Rightarrow> string"
  colors_red :: "string \<Rightarrow> string"
  colors_strikethrough :: "string \<Rightarrow> string"
  colors_reset :: "string \<Rightarrow> string"
  toString_utf8 :: "buffer \<Rightarrow> string"

subsection \<open>Operators and constants\<close>

text \<open>\<^verbatim>\<open>a ?? b\<close>: the left operand unless it is absent.\<close>

definition nullish :: "'a option \<Rightarrow> 'a \<Rightarrow> 'a" where
  "nullish a b = (case a of Some v \<Rightarrow> v | None \<Rightarrow> b)"

text \<open>An optional string inside a template literal.\<close>

definition template_string :: "string option \<Rightarrow> string" where
  "template_string a = (case a of Some v \<Rightarrow> v | None \<Rightarrow> ''undefined'')"

definition JPEG_JS_MAX_BUFFER_SIZE_IN_MB :: real where
  "JPEG_JS_MAX_BUFFER_SIZE_IN_MB = js_times 5 1024"

text \<open>
  \<^verbatim>\<open>Buffer.compare(a, b)\<close> orders two buffers bytewise, a proper prefix first, and returns
  \<open>-1\<close>, \<open>0\<close> or \<open>1\<close>.
\<close>

fun Buffer_compare :: "buffer \<Rightarrow> buffer \<Rightarrow> int" where
  "Buffer_compare [] [] = 0"
| "Buffer_compare [] (y # ys) = - 1"
| "Buffer_compare (x # xs) [] = 1"
| "Buffer_compare (x # xs) (y # ys) =
     (if x < y then - 1 else if y < x then 1 else Buffer_compare xs ys)"

subsection \<open>The text comparator\<close>

text \<open>
  \<^verbatim>\<open>diff_prettyTerminal\<close> fills the array \<^verbatim>\<open>html\<close> index by index and joins it. An
  assignment \<^verbatim>\<open>html[x] = v\<close> at or beyond the length extends the array, leaving holes
  between; \<^verbatim>\<open>join('')\<close> prints a hole as the empty string. The \<^verbatim>\<open>switch\<close> has no
  default: an operation that is none of the three tags assigns nothing.
\<close>

definition array_set :: "'a option list \<Rightarrow> nat \<Rightarrow> 'a \<Rightarrow> 'a option list" where
  "array_set xs i v =
     (if i < length xs then xs[i := Some v]
      else xs @ replicate (i - length xs) None @ [Some v])"

definition join_empty :: "string option list \<Rightarrow> string" where
  "join_empty xs = concat (map (\<lambda>e. case e of None \<Rightarrow> [] | Some s \<Rightarrow> s) xs)"

function diff_prettyTerminal_loop ::
  "externals \<Rightarrow> (int \<times> string) list \<Rightarrow> nat \<Rightarrow> string option list \<Rightarrow> string option list" where
  "diff_prettyTerminal_loop ext edits x html =
     (if x < length edits then
        (let op = fst (edits ! x); text = snd (edits ! x)
         in diff_prettyTerminal_loop ext edits (x + 1)
              (if op = DIFF_INSERT ext then array_set html x (colors_green ext text)
               else if op = DIFF_DELETE ext then
                 array_set html x (colors_reset ext (colors_strikethrough ext (colors_red ext text)))
               else if op = DIFF_EQUAL ext then array_set html x text
               else html))
      else html)"
  by pat_completeness auto
termination
  by (relation "measure (\<lambda>(ext, edits, x, html). length edits - x)") auto

declare diff_prettyTerminal_loop.simps [simp del]

definition diff_prettyTerminal :: "externals \<Rightarrow> (int \<times> string) list \<Rightarrow> string" where
  "diff_prettyTerminal ext edits = join_empty (diff_prettyTerminal_loop ext edits 0 [])"

definition compareText :: "externals \<Rightarrow> jsval \<Rightarrow> buffer \<Rightarrow> ComparatorResult" where
  "compareText ext actual expectedBuffer =
     (case actual of
        JSString a \<Rightarrow>
          (let expected = toString_utf8 ext expectedBuffer
           in if expected = a then None
              else (let d = diff_cleanupSemantic ext (diff_main ext expected a)
                    in Some \<lparr>errorMessage = diff_prettyTerminal ext d, diff = None\<rparr>))
      | _ \<Rightarrow> Some \<lparr>errorMessage = ''Actual result should be a string'', diff = None\<rparr>)"

subsection \<open>The fallback comparator\<close>

definition compareBuffersOrStrings :: "externals \<Rightarrow> jsval \<Rightarrow> buffer \<Rightarrow> ComparatorResult" where
  "compareBuffersOrStrings ext actualBuffer expectedBuffer =
     (case actualBuffer of
        JSString a \<Rightarrow> compareText ext (JSString a) expectedBuffer
      | JSOther \<Rightarrow>
          Some \<lparr>errorMessage = ''Actual result should be a Buffer or a string.'', diff = None\<rparr>
      | JSBuffer b \<Rightarrow>
          (if Buffer_compare b expectedBuffer \<noteq> 0
           then Some \<lparr>errorMessage = ''Buffers differ'', diff = None\<rparr>
           else None))"

subsection \<open>The image comparator\<close>

text \<open>The codec of the MIME type the comparator is bound to (the two conditional expressions).\<close>

definition decode :: "externals \<Rightarrow> string \<Rightarrow> buffer \<Rightarrow> exn + image" where
  "decode ext mimeType b =
     external (if mimeType = ''image/png'' then PNG_sync_read ext b
               else jpegjs_decode ext b JPEG_JS_MAX_BUFFER_SIZE_IN_MB)"

text \<open>
  The choice of the kernel: the result is the count with the diff buffer as written, or the
  exception thrown.
\<close>

definition count_pixels ::
  "externals \<Rightarrow> ImageComparatorOptions \<Rightarrow> image \<Rightarrow> image \<Rightarrow> image \<Rightarrow> exn + nat \<times> buffer" where
  "count_pixels ext options expected actual diff_image =
     (if comparator options = Some ''ssim-cie94'' then
        external (image_tools_compare ext (data expected) (data actual) (data diff_image)
                    (width expected) (height expected) (Num 1))
      else if nullish (comparator options) ''pixelmatch'' = ''pixelmatch'' then
        external (pixelmatch ext (data expected) (data actual) (data diff_image)
                    (width expected) (height expected) (nullish (threshold options) (Num (fl (2 / 10)))))
      else
        Inl (Error (''Configuration specifies unknown comparator '' @ [CHR 0x22] @
                    template_string (comparator options) @ [CHR 0x22])))"

text \<open>The local \<^verbatim>\<open>maxDiffPixels\<close>: the cap on the count.\<close>

definition maxDiffPixels_cap :: "ImageComparatorOptions \<Rightarrow> image \<Rightarrow> number" where
  "maxDiffPixels_cap options expected =
     (let maxDiffPixels1 = maxDiffPixels options;
          maxDiffPixels2 =
            (case maxDiffPixelRatio options of
               Some r \<Rightarrow>
                 Some (times_number
                         (js_times (real (width expected)) (real (height expected))) r)
             | None \<Rightarrow> None)
      in case (maxDiffPixels1, maxDiffPixels2) of
           (Some m1, Some m2) \<Rightarrow> Math_min m1 m2
         | _ \<Rightarrow> nullish maxDiffPixels1 (nullish maxDiffPixels2 (Num 0)))"

text \<open>The local \<^verbatim>\<open>ratio\<close>.\<close>

definition ratio :: "nat \<Rightarrow> image \<Rightarrow> number" where
  "ratio count expected =
     number_apply (\<lambda>q. fl (Math_ceil (js_times q 100) / 100))
       (js_divide (real count) (js_times (real (width expected)) (real (height expected))))"

definition compareImages ::
  "externals \<Rightarrow> string \<Rightarrow> jsval \<Rightarrow> buffer \<Rightarrow> ImageComparatorOptions \<Rightarrow> exn + ComparatorResult" where
  "compareImages ext mimeType actualBuffer expectedBuffer options =
     (case actualBuffer of
        JSBuffer ab \<Rightarrow>
          (case decode ext mimeType ab of
             Inl e \<Rightarrow> Inl e
           | Inr actual \<Rightarrow>
               (case decode ext mimeType expectedBuffer of
                  Inl e \<Rightarrow> Inl e
                | Inr expected \<Rightarrow>
                    if width expected \<noteq> width actual \<or> height expected \<noteq> height actual then
                      Inr (Some \<lparr>errorMessage =
                              ''Expected an image '' @ decimal (width expected) @ ''px by '' @
                              decimal (height expected) @ ''px, received '' @
                              decimal (width actual) @ ''px by '' @
                              decimal (height actual) @ ''px. '',
                            diff = None\<rparr>)
                    else
                      (let diff_image = PNG_new ext (width expected) (height expected)
                       in case count_pixels ext options expected actual diff_image of
                            Inl e \<Rightarrow> Inl e
                          | Inr (count, written) \<Rightarrow>
                              Inr (if number_less (maxDiffPixels_cap options expected)
                                        (Num (real count)) then
                                     Some \<lparr>errorMessage =
                                             decimal count @ '' pixels (ratio '' @
                                             toFixed2 (ratio count expected) @
                                             '' of all image pixels) are different'',
                                           diff = Some (PNG_sync_write ext
                                                          (diff_image\<lparr>data := written\<rparr>))\<rparr>
                                   else None))))
      | _ \<Rightarrow> Inr (Some \<lparr>errorMessage = ''Actual result should be a Buffer.'', diff = None\<rparr>))"

subsection \<open>The registry\<close>

type_synonym Comparator = "jsval \<Rightarrow> buffer \<Rightarrow> ImageComparatorOptions \<Rightarrow> exn + ComparatorResult"

text \<open>
  \<^verbatim>\<open>compareText\<close> and \<^verbatim>\<open>compareBuffersOrStrings\<close> take two arguments and have no
  \<^verbatim>\<open>throw\<close>: as comparators they ignore the options and always return.
\<close>

definition getComparator :: "externals \<Rightarrow> string \<Rightarrow> Comparator" where
  "getComparator ext mimeType =
     (if mimeType = ''image/png'' then compareImages ext ''image/png''
      else if mimeType = ''image/jpeg'' then compareImages ext ''image/jpeg''
      else if mimeType = ''text/plain'' then (\<lambda>actual expected options. Inr (compareText ext actual expected))
      else (\<lambda>actual expected options. Inr (compareBuffersOrStrings ext actual expected)))"

subsection \<open>The rendering of one edit\<close>

text \<open>
  What one pass of the loop of \<^verbatim>\<open>diff_prettyTerminal\<close> contributes to the joined string.
\<close>

definition render_edit :: "externals \<Rightarrow> int \<times> string \<Rightarrow> string" where
  "render_edit ext e =
     (if fst e = DIFF_INSERT ext then colors_green ext (snd e)
      else if fst e = DIFF_DELETE ext then
        colors_reset ext (colors_strikethrough ext (colors_red ext (snd e)))
      else if fst e = DIFF_EQUAL ext then snd e
      else [])"

subsection \<open>The rendering in the words of the specification\<close>

text \<open>
  The specification speaks of an ordered sequence of edits \<open>(kind, text)\<close> with kind Insert,
  Delete or Equal, of an added style and of a removed, struck-through style. These
  definitions follow its words: \<open>edit_tag\<close> is the number the library writes for a kind, and
  \<open>styled_edit\<close> is the rendering the specification asks for.
\<close>

datatype edit_kind = Insert | Delete | Equal

fun edit_tag :: "externals \<Rightarrow> edit_kind \<Rightarrow> int" where
  "edit_tag ext Insert = DIFF_INSERT ext"
| "edit_tag ext Delete = DIFF_DELETE ext"
| "edit_tag ext Equal = DIFF_EQUAL ext"

definition added_style :: "externals \<Rightarrow> string \<Rightarrow> string" where
  "added_style ext s = colors_green ext s"

definition removed_style :: "externals \<Rightarrow> string \<Rightarrow> string" where
  "removed_style ext s = colors_reset ext (colors_strikethrough ext (colors_red ext s))"

fun styled_edit :: "externals \<Rightarrow> edit_kind \<times> string \<Rightarrow> string" where
  "styled_edit ext (Insert, s) = added_style ext s"
| "styled_edit ext (Delete, s) = removed_style ext s"
| "styled_edit ext (Equal, s) = s"

subsection \<open>An instance of the collaborators\<close>

text \<open>
  To run the comparators on concrete inputs, the parameters are instantiated with small
  stand-ins: an image format of one byte of width, one byte of height and the RGBA samples; a
  kernel that counts the pixels whose four samples are not all equal; a text difference that
  deletes the expected text and inserts the actual one; styles that wrap a text in marks;
  and a decoder of ASCII bytes.
\<close>

definition sample_decode :: "buffer \<Rightarrow> string + image" where
  "sample_decode b =
     (case b of
        w # h # d \<Rightarrow>
          if length d = 4 * unat w * unat h
          then Inr \<lparr>width = unat w, height = unat h, data = d\<rparr>
          else Inl ''unexpected end of image data''
      | _ \<Rightarrow> Inl ''not an image'')"

fun differing_pixels :: "buffer \<Rightarrow> buffer \<Rightarrow> nat" where
  "differing_pixels (r1 # g1 # b1 # a1 # xs) (r2 # g2 # b2 # a2 # ys) =
     (if r1 = r2 \<and> g1 = g2 \<and> b1 = b2 \<and> a1 = a2 then 0 else 1) + differing_pixels xs ys"
| "differing_pixels xs ys = 0"

definition sample_kernel ::
  "buffer \<Rightarrow> buffer \<Rightarrow> buffer \<Rightarrow> nat \<Rightarrow> nat \<Rightarrow> number \<Rightarrow> string + nat \<times> buffer" where
  "sample_kernel img1 img2 output w h t = Inr (differing_pixels img1 img2, output)"

definition sample_externals :: externals where
  "sample_externals =
     \<lparr>PNG_sync_read = sample_decode,
      jpegjs_decode = (\<lambda>b m. sample_decode b),
      PNG_new = (\<lambda>w h. \<lparr>width = w, height = h, data = replicate (4 * w * h) 0\<rparr>),
      PNG_sync_write = (\<lambda>i. of_nat (width i) # of_nat (height i) # data i),
      pixelmatch = sample_kernel,
      image_tools_compare = sample_kernel,
      diff_main = (\<lambda>a b. [(- 1, a), (1, b)]),
      diff_cleanupSemantic = (\<lambda>d. d),
      DIFF_INSERT = 1,
      DIFF_DELETE = - 1,
      DIFF_EQUAL = 0,
      colors_green = (\<lambda>s. ''<green>'' @ s @ ''</green>''),
      colors_red = (\<lambda>s. ''<red>'' @ s @ ''</red>''),
      colors_strikethrough = (\<lambda>s. ''<s>'' @ s @ ''</s>''),
      colors_reset = (\<lambda>s. ''<reset>'' @ s @ ''</reset>''),
      toString_utf8 = map (\<lambda>b. char_of (unat b))\<rparr>"

text \<open>Options that name a comparator the module does not know.\<close>

definition bogus_options :: ImageComparatorOptions where
  "bogus_options = no_options\<lparr>comparator := Some ''bogus''\<rparr>"


text \<open>Options with a cap below the documented range, without and with a ratio of NaN.\<close>

definition negative_cap :: ImageComparatorOptions where
  "negative_cap = no_options\<lparr>maxDiffPixels := Some (Num (- 1))\<rparr>"

definition negative_cap_NaN_ratio :: ImageComparatorOptions where
  "negative_cap_NaN_ratio =
     no_options\<lparr>maxDiffPixels := Some (Num (- 1)), maxDiffPixelRatio := Some NaN\<rparr>"

section \<open>Properties\<close>

subsection \<open>Rounding\<close>






lemma fl_pos_0: "fl_pos 0 = 0"
  by (subst fl_pos.simps) simp









subsection \<open>Printing\<close>





subsection \<open>The reported ratio\<close>







subsection \<open>Buffers and the rendering loop\<close>

lemma Buffer_compare_eq_0_iff: "Buffer_compare a b = 0 \<longleftrightarrow> a = b"
  by (induction a b rule: Buffer_compare.induct) auto

lemma join_empty_append: "join_empty (xs @ ys) = join_empty xs @ join_empty ys"
  by (simp add: join_empty_def)

lemma join_empty_holes: "join_empty (replicate n None) = []"
  by (induction n) (simp_all add: join_empty_def)

lemma join_empty_array_set:
  "length html \<le> x \<Longrightarrow> join_empty (array_set html x v) = join_empty html @ v"
  by (simp add: array_set_def join_empty_append join_empty_holes) (simp add: join_empty_def)

lemma length_array_set: "length html \<le> x \<Longrightarrow> length (array_set html x v) = Suc x"
  by (simp add: array_set_def)

text \<open>
  The loop invariant: the array is never longer than the index, and joining the final
  array appends the rendering of the remaining edits to the joined array so far.
\<close>

lemma diff_prettyTerminal_loop_join:
  "length html \<le> x \<Longrightarrow>
   join_empty (diff_prettyTerminal_loop ext edits x html) =
   join_empty html @ concat (map (render_edit ext) (drop x edits))"
proof (induction ext edits x html rule: diff_prettyTerminal_loop.induct)
  case (1 ext edits x html)
  show ?case
  proof (cases "x < length edits")
    case False
    then show ?thesis by (subst diff_prettyTerminal_loop.simps) simp
  next
    case True
    define html' where "html' =
      (if fst (edits ! x) = DIFF_INSERT ext
       then array_set html x (colors_green ext (snd (edits ! x)))
       else if fst (edits ! x) = DIFF_DELETE ext then
         array_set html x
           (colors_reset ext (colors_strikethrough ext (colors_red ext (snd (edits ! x)))))
       else if fst (edits ! x) = DIFF_EQUAL ext then array_set html x (snd (edits ! x))
       else html)"
    have len: "length html' \<le> x + 1"
      using 1(2) by (simp add: html'_def length_array_set)
    have j: "join_empty html' = join_empty html @ render_edit ext (edits ! x)"
      using 1(2) by (simp add: html'_def render_edit_def join_empty_array_set)
    have step: "diff_prettyTerminal_loop ext edits x html =
                diff_prettyTerminal_loop ext edits (x + 1) html'"
      using True by (subst diff_prettyTerminal_loop.simps) (simp add: html'_def Let_def)
    have "join_empty (diff_prettyTerminal_loop ext edits (x + 1) html') =
          join_empty html' @ concat (map (render_edit ext) (drop (x + 1) edits))"
      using 1(1) [OF True refl refl] len unfolding html'_def by simp
    moreover have "drop x edits = edits ! x # drop (x + 1) edits"
      using True by (simp add: Cons_nth_drop_Suc)
    ultimately show ?thesis using step j by simp
  qed
qed

lemma diff_prettyTerminal_concat:
  "diff_prettyTerminal ext edits = concat (map (render_edit ext) edits)"
  using diff_prettyTerminal_loop_join [of "[]" 0 ext edits]
  by (simp add: diff_prettyTerminal_def join_empty_def)

subsection \<open>Numbers that are not finite, and the verdict\<close>


lemma less_negative:
  assumes "number_less cap (Num 0)" and "0 \<le> x"
  shows "number_less cap (Num x)"
  using assms by (cases cap) auto

lemma Math_min_negative:
  assumes "number_less m (Num 0)" and "b \<noteq> NaN"
  shows "number_less (Math_min m b) (Num 0)"
  using assms by (cases m; cases b) auto




text \<open>The verdict once both images are decoded, of one size, and counted.\<close>

lemma compareImages_counted:
  assumes "decode ext mimeType actualBuffer = Inr actual"
    and "decode ext mimeType expectedBuffer = Inr expected"
    and "width expected = width actual" and "height expected = height actual"
    and "count_pixels ext options expected actual
           (PNG_new ext (width expected) (height expected)) = Inr (count, written)"
  shows "compareImages ext mimeType (JSBuffer actualBuffer) expectedBuffer options =
        Inr (if number_less (maxDiffPixels_cap options expected) (Num (real count)) then
               Some \<lparr>errorMessage =
                       decimal count @ '' pixels (ratio '' @ toFixed2 (ratio count expected) @
                       '' of all image pixels) are different'',
                     diff = Some (PNG_sync_write ext
                              (PNG_new ext (width expected) (height expected)
                                 \<lparr>data := written\<rparr>))\<rparr>
             else None)"
  using assms by (simp add: compareImages_def)

subsection \<open>Exceptions\<close>

text \<open>
  An exception of a collaborator is never the \<^verbatim>\<open>Error\<close> of the module, and the kernel
  choice throws that \<^verbatim>\<open>Error\<close> only in its last branch.
\<close>

lemma external_not_Error: "external r \<noteq> Inl (Error m)"
  by (simp add: external_def split: sum.splits)

lemma decode_not_Error: "decode ext mimeType b \<noteq> Inl (Error m)"
  by (simp add: decode_def external_not_Error)

lemma count_pixels_Error:
  assumes "count_pixels ext options expected actual diff_image = Inl (Error m)"
  shows "comparator options \<notin> {None, Some ''pixelmatch'', Some ''ssim-cie94''} \<and>
         m = ''Configuration specifies unknown comparator '' @ [CHR 0x22] @
             template_string (comparator options) @ [CHR 0x22]"
  using assms
  by (cases "comparator options")
     (auto simp: count_pixels_def nullish_def external_not_Error split: if_splits)

subsection \<open>Tags and styles\<close>

lemma render_edit_styled:
  assumes "distinct [DIFF_INSERT ext, DIFF_DELETE ext, DIFF_EQUAL ext]"
  shows "render_edit ext (edit_tag ext k, s) = styled_edit ext (k, s)"
  using assms by (cases k) (auto simp: render_edit_def added_style_def removed_style_def)

subsection \<open>Running the instance\<close>

lemma sample_externals_simps:
  "PNG_sync_read sample_externals = sample_decode"
  "jpegjs_decode sample_externals = (\<lambda>b m. sample_decode b)"
  "PNG_new sample_externals = (\<lambda>w h. \<lparr>width = w, height = h, data = replicate (4 * w * h) 0\<rparr>)"
  "PNG_sync_write sample_externals = (\<lambda>i. of_nat (width i) # of_nat (height i) # data i)"
  "pixelmatch sample_externals = sample_kernel"
  "image_tools_compare sample_externals = sample_kernel"
  "diff_main sample_externals = (\<lambda>a b. [(- 1, a), (1, b)])"
  "diff_cleanupSemantic sample_externals = (\<lambda>d. d)"
  "DIFF_INSERT sample_externals = 1"
  "DIFF_DELETE sample_externals = - 1"
  "DIFF_EQUAL sample_externals = 0"
  "colors_green sample_externals = (\<lambda>s. ''<green>'' @ s @ ''</green>'')"
  "colors_red sample_externals = (\<lambda>s. ''<red>'' @ s @ ''</red>'')"
  "colors_strikethrough sample_externals = (\<lambda>s. ''<s>'' @ s @ ''</s>'')"
  "colors_reset sample_externals = (\<lambda>s. ''<reset>'' @ s @ ''</reset>'')"
  "toString_utf8 sample_externals = map (\<lambda>b. char_of (unat b))"
  by (simp_all add: sample_externals_def)

lemma ascii_simps:
  "char_of (0x61 :: nat) = CHR ''a''"
  "char_of (0x62 :: nat) = CHR ''b''"
  "char_of (0x63 :: nat) = CHR ''c''"
  "char_of (0x64 :: nat) = CHR ''d''"
  by (simp_all add: char_of_def bit_Suc_0_iff)

lemma sample_decode_1x1:
  "decode sample_externals ''image/png'' [1, 1, r, g, b, a] =
   Inr \<lparr>width = 1, height = 1, data = [r, g, b, a]\<rparr>"
  by (simp add: decode_def external_def sample_externals_simps sample_decode_def)

lemma sample_decode_2x1:
  "decode sample_externals ''image/png'' [2, 1, r1, g1, b1, a1, r2, g2, b2, a2] =
   Inr \<lparr>width = 2, height = 1, data = [r1, g1, b1, a1, r2, g2, b2, a2]\<rparr>"
  by (simp add: decode_def external_def sample_externals_simps sample_decode_def)

lemma decimal_digits:
  "decimal 0 = ''0''" "decimal 1 = ''1''" "decimal (Suc 0) = ''1''" "decimal 2 = ''2''"
  by (simp_all add: decimal.simps digit_def)

lemma sample_bogus_throws:
  "compareImages sample_externals ''image/png'' (JSBuffer [1, 1, 10, 20, 30, 255])
     [1, 1, 10, 20, 30, 255] bogus_options =
   Inl (Error (''Configuration specifies unknown comparator '' @ [CHR 0x22] @ ''bogus'' @ [CHR 0x22]))"
  by (simp add: compareImages_def sample_decode_1x1 count_pixels_def bogus_options_def
      no_options_def nullish_def template_string_def)

lemma sample_count_pixels:
  assumes "comparator options = None"
  shows "count_pixels sample_externals options expected actual diff_image =
         Inr (differing_pixels (data expected) (data actual), data diff_image)"
  using assms
  by (simp add: count_pixels_def nullish_def external_def sample_externals_simps sample_kernel_def)

lemma sample_fl: "fl 1 = 1" "fl 2 = 2" "fl (3 / 2) = 3 / 2" "fl 100 = 100" "fl 50 = 50"
  "fl (1 / 2) = 1 / 2"
  by (simp_all add: fl_def fl_pos.simps round_even_def)


text \<open>
  The arithmetic is that of doubles: \<^verbatim>\<open>7 / 100 * 100\<close> evaluates to
  \<^verbatim>\<open>7.000000000000001\<close>, so 7 differing pixels of 100 are reported as \<^verbatim>\<open>0.08\<close>.
\<close>

lemma ratio_seven_of_hundred:
  "toFixed2 (ratio 7 \<lparr>width = 10, height = 10, data = d\<rparr>) = ''0.08''"
proof -
  have t: "js_times 10 10 = 100"
    by (simp add: js_times_def fl_def fl_pos.simps round_even_def)
  have q: "fl (7 / 100) = 1261007895663739 / 18014398509481984"
    by (simp add: fl_def fl_pos.simps round_even_def)
  have p: "js_times (1261007895663739 / 18014398509481984) 100 =
           7881299347898369 / 1125899906842624"
    by (simp add: js_times_def fl_def fl_pos.simps round_even_def)
  have c: "Math_ceil (7881299347898369 / 1125899906842624) = 8"
    by (simp add: Math_ceil_def)
  have u: "fl (2 / 25) = 5764607523034235 / 72057594037927936"
    by (simp add: fl_def fl_pos.simps round_even_def)
  have "ratio 7 \<lparr>width = 10, height = 10, data = d\<rparr> =
        Num (5764607523034235 / 72057594037927936)"
    by (simp add: ratio_def js_divide_def t q p c u)
  then show ?thesis by (simp add: toFixed2_def decimal_digits digit_def)
qed

lemma ratio_zero_of_one:
  "toFixed2 (ratio 0 \<lparr>width = 1, height = 1, data = d\<rparr>) = ''0.00''"
proof -
  have z: "fl 0 = 0" by (simp add: fl_def fl_pos_0)
  have "ratio 0 \<lparr>width = 1, height = 1, data = d\<rparr> = Num 0"
    by (simp add: ratio_def js_divide_def js_times_def Math_ceil_def sample_fl z)
  then show ?thesis by (simp add: toFixed2_def decimal_digits digit_def)
qed

lemma sample_decode_jpeg_1x1:
  "decode sample_externals ''image/jpeg'' [1, 1, r, g, b, a] =
   Inr \<lparr>width = 1, height = 1, data = [r, g, b, a]\<rparr>"
  by (simp add: decode_def external_def sample_externals_simps sample_decode_def)








section \<open>The claims\<close>

subsection \<open>Selection\<close>

text \<open>
  C2. For every content-type string the registry returns a comparator: for
  \<^verbatim>\<open>image/png\<close> and \<^verbatim>\<open>image/jpeg\<close> the image comparator bound to that MIME type, for
  \<^verbatim>\<open>text/plain\<close> the text comparator, and for every other string, the empty one included,
  the fallback comparator. \<open>getComparator\<close> has no error result: selecting cannot fail.
\<close>

theorem getComparator_selects:
  "getComparator ext ''image/png'' = compareImages ext ''image/png'' \<and>
   getComparator ext ''image/jpeg'' = compareImages ext ''image/jpeg'' \<and>
   getComparator ext ''text/plain'' =
     (\<lambda>actual expected options. Inr (compareText ext actual expected)) \<and>
   (mimeType \<notin> {''image/png'', ''image/jpeg'', ''text/plain''} \<longrightarrow>
    getComparator ext mimeType =
      (\<lambda>actual expected options. Inr (compareBuffersOrStrings ext actual expected)))"
  by (simp add: getComparator_def)

text \<open>The selection at an unknown and at the empty content type.\<close>

theorem getComparator_selects_witness:
  "getComparator sample_externals ''application/json'' =
     (\<lambda>actual expected options. Inr (compareBuffersOrStrings sample_externals actual expected)) \<and>
   getComparator sample_externals [] =
     (\<lambda>actual expected options. Inr (compareBuffersOrStrings sample_externals actual expected))"
  using getComparator_selects [of sample_externals "''application/json''"]
    getComparator_selects [of sample_externals "[]"]
  by simp

subsection \<open>The fallback comparator\<close>

text \<open>
  C7. The fallback comparator hands a string to the text comparator, whatever content type
  selected it; for an actual value that is neither a string nor a Buffer it answers
  \<^verbatim>\<open>Actual result should be a Buffer or a string.\<close>; two equal buffers match, and two
  different buffers give the mismatch \<^verbatim>\<open>Buffers differ\<close> without a diff.
\<close>

theorem compareBuffersOrStrings_cases:
  "compareBuffersOrStrings ext (JSString s) expected = compareText ext (JSString s) expected \<and>
   (mimeType \<notin> {''image/png'', ''image/jpeg'', ''text/plain''} \<longrightarrow>
    getComparator ext mimeType (JSString s) expected options =
      Inr (compareText ext (JSString s) expected)) \<and>
   compareBuffersOrStrings ext JSOther expected =
     Some \<lparr>errorMessage = ''Actual result should be a Buffer or a string.'', diff = None\<rparr> \<and>
   compareBuffersOrStrings ext (JSBuffer expected) expected = None \<and>
   (b \<noteq> expected \<longrightarrow>
    compareBuffersOrStrings ext (JSBuffer b) expected =
      Some \<lparr>errorMessage = ''Buffers differ'', diff = None\<rparr>)"
  by (simp add: compareBuffersOrStrings_def getComparator_def Buffer_compare_eq_0_iff)

text \<open>
  A string through an unknown content type, a buffer against itself, and two buffers that
  differ in their last byte.
\<close>

theorem compareBuffersOrStrings_cases_witness:
  "getComparator sample_externals ''application/octet-stream'' (JSString ''abc'') [0x61, 0x62, 0x63]
     no_options = Inr None \<and>
   compareBuffersOrStrings sample_externals (JSBuffer [1, 2, 3]) [1, 2, 3] = None \<and>
   compareBuffersOrStrings sample_externals (JSBuffer [1, 2, 3]) [1, 2, 4] =
     Some \<lparr>errorMessage = ''Buffers differ'', diff = None\<rparr>"
proof -
  have "getComparator sample_externals ''application/octet-stream'' (JSString ''abc'')
          [0x61, 0x62, 0x63] no_options =
        Inr (compareText sample_externals (JSString ''abc'') [0x61, 0x62, 0x63])"
    using compareBuffersOrStrings_cases
      [of sample_externals "''abc''" "[0x61, 0x62, 0x63]" "''application/octet-stream''" no_options]
    by simp
  moreover have "compareText sample_externals (JSString ''abc'') [0x61, 0x62, 0x63] = None"
    by (simp add: compareText_def sample_externals_simps ascii_simps)
  moreover have "compareBuffersOrStrings sample_externals (JSBuffer [1, 2, 3]) [1, 2, 3] = None"
    using compareBuffersOrStrings_cases [of sample_externals _ "[1, 2, 3]"] by simp
  moreover have "compareBuffersOrStrings sample_externals (JSBuffer [1, 2, 3]) [1, 2, 4] =
      Some \<lparr>errorMessage = ''Buffers differ'', diff = None\<rparr>"
    using compareBuffersOrStrings_cases [of sample_externals _ "[1, 2, 4]" _ _ "[1, 2, 3]"] by simp
  ultimately show ?thesis by simp
qed

subsection \<open>The text comparator\<close>

text \<open>
  C6. The text comparator answers \<^verbatim>\<open>Actual result should be a string\<close> for an actual
  value that is not a string, whatever the expected buffer holds. A string equal to the
  UTF-8 decoding of the expected buffer matches. Any other string gives a mismatch without
  a diff whose message is the edits of the cleaned-up difference between the decoded
  expected text and the actual one, rendered in their order: an Insert in the added style, a
  Delete in the removed, struck-through style, an Equal as it is. The three tags of the
  library are taken to be distinct.
\<close>

theorem compareText_cases:
  "compareText ext (JSBuffer b) expectedBuffer =
     Some \<lparr>errorMessage = ''Actual result should be a string'', diff = None\<rparr> \<and>
   compareText ext JSOther expectedBuffer =
     Some \<lparr>errorMessage = ''Actual result should be a string'', diff = None\<rparr> \<and>
   compareText ext (JSString (toString_utf8 ext expectedBuffer)) expectedBuffer = None \<and>
   (actual \<noteq> toString_utf8 ext expectedBuffer \<longrightarrow>
    distinct [DIFF_INSERT ext, DIFF_DELETE ext, DIFF_EQUAL ext] \<longrightarrow>
    diff_cleanupSemantic ext (diff_main ext (toString_utf8 ext expectedBuffer) actual) =
      map (\<lambda>(kind, s). (edit_tag ext kind, s)) es \<longrightarrow>
    compareText ext (JSString actual) expectedBuffer =
      Some \<lparr>errorMessage = concat (map (styled_edit ext) es), diff = None\<rparr>)"
proof -
  have "concat (map (render_edit ext) (map (\<lambda>(kind, s). (edit_tag ext kind, s)) es)) =
        concat (map (styled_edit ext) es)"
    if "distinct [DIFF_INSERT ext, DIFF_DELETE ext, DIFF_EQUAL ext]"
  proof -
    have "render_edit ext ((\<lambda>(kind, s). (edit_tag ext kind, s)) e) = styled_edit ext e" for e
      using render_edit_styled [OF that] by (cases e) simp
    then show ?thesis by (simp add: comp_def)
  qed
  then show ?thesis
    by (auto simp: compareText_def diff_prettyTerminal_concat Let_def)
qed

text \<open>
  A buffer as the actual value, the text \<^verbatim>\<open>abc\<close> against its own bytes, and \<^verbatim>\<open>abc\<close>
  against the bytes of \<^verbatim>\<open>abd\<close>.
\<close>

theorem compareText_cases_witness:
  "compareText sample_externals (JSBuffer [0x61, 0x62, 0x63]) [0x61, 0x62, 0x63] =
     Some \<lparr>errorMessage = ''Actual result should be a string'', diff = None\<rparr> \<and>
   compareText sample_externals (JSString ''abc'') [0x61, 0x62, 0x63] = None \<and>
   compareText sample_externals (JSString ''abc'') [0x61, 0x62, 0x64] =
     Some \<lparr>errorMessage = ''<reset><s><red>abd</red></s></reset><green>abc</green>'',
           diff = None\<rparr>"
proof -
  have abc: "toString_utf8 sample_externals [0x61, 0x62, 0x63] = ''abc''"
    and abd: "toString_utf8 sample_externals [0x61, 0x62, 0x64] = ''abd''"
    by (simp_all add: sample_externals_simps ascii_simps)
  have "compareText sample_externals (JSBuffer [0x61, 0x62, 0x63]) [0x61, 0x62, 0x63] =
     Some \<lparr>errorMessage = ''Actual result should be a string'', diff = None\<rparr>"
    using compareText_cases [of sample_externals "[0x61, 0x62, 0x63]" "[0x61, 0x62, 0x63]"]
    by simp
  moreover have "compareText sample_externals (JSString ''abc'') [0x61, 0x62, 0x63] = None"
    using compareText_cases [of sample_externals _ "[0x61, 0x62, 0x63]"] abc by simp
  moreover have "compareText sample_externals (JSString ''abc'') [0x61, 0x62, 0x64] =
     Some \<lparr>errorMessage = concat (map (styled_edit sample_externals)
                                     [(Delete, ''abd''), (Insert, ''abc'')]), diff = None\<rparr>"
    using compareText_cases [of sample_externals _ "[0x61, 0x62, 0x64]" "''abc''"
        "[(Delete, ''abd''), (Insert, ''abc'')]"] abd
    by (simp add: sample_externals_simps)
  ultimately show ?thesis
    by (simp add: added_style_def removed_style_def sample_externals_simps)
qed


subsection \<open>The image comparator: sizes\<close>

text \<open>
  C3. When both buffers decode and the two images differ in width or in height, the image
  comparator returns a mismatch whose message names the size of the expected image and the
  size of the received one, and the mismatch has no diff.
\<close>

theorem compareImages_sizes_differ:
  assumes "decode ext mimeType actualBuffer = Inr actual"
    and "decode ext mimeType expectedBuffer = Inr expected"
    and "width expected \<noteq> width actual \<or> height expected \<noteq> height actual"
  shows "compareImages ext mimeType (JSBuffer actualBuffer) expectedBuffer options =
         Inr (Some \<lparr>errorMessage =
                      ''Expected an image '' @ decimal (width expected) @ ''px by '' @
                      decimal (height expected) @ ''px, received '' @
                      decimal (width actual) @ ''px by '' @
                      decimal (height actual) @ ''px. '',
                    diff = None\<rparr>)"
  using assms by (simp add: compareImages_def)

text \<open>An image of 1 by 1 pixel against an expected image of 2 by 1 pixels.\<close>

theorem compareImages_sizes_differ_witness:
  "compareImages sample_externals ''image/png'' (JSBuffer [1, 1, 10, 20, 30, 255])
     [2, 1, 10, 20, 30, 255, 10, 20, 30, 255] no_options =
   Inr (Some \<lparr>errorMessage = ''Expected an image 2px by 1px, received 1px by 1px. '',
              diff = None\<rparr>)"
  using compareImages_sizes_differ [OF sample_decode_1x1 sample_decode_2x1, of 10 20 30 255 10 20 30 255 10 20 30 255 no_options]
  by (simp add: decimal_digits)


subsection \<open>The image comparator: the order of the checks\<close>

text \<open>
  C9. The test of the actual value and the comparison of the sizes come before the choice
  of the kernel. For an actual value that is not a Buffer, and for two decoded images of
  different sizes, the image comparator returns its mismatch whatever the options are, an
  unknown comparator name included. And when the comparator throws its own
  \<^verbatim>\<open>Error\<close>, the actual value is a Buffer, both buffers decode, the two images have the
  same size, and the options name a comparator that is neither \<^verbatim>\<open>pixelmatch\<close> nor
  \<^verbatim>\<open>ssim-cie94\<close>.
\<close>

theorem compareImages_checks_before_dispatch:
  "compareImages ext mimeType (JSString s) expectedBuffer options =
     Inr (Some \<lparr>errorMessage = ''Actual result should be a Buffer.'', diff = None\<rparr>) \<and>
   compareImages ext mimeType JSOther expectedBuffer options =
     Inr (Some \<lparr>errorMessage = ''Actual result should be a Buffer.'', diff = None\<rparr>) \<and>
   (decode ext mimeType actualBuffer = Inr actual \<longrightarrow>
    decode ext mimeType expectedBuffer = Inr expected \<longrightarrow>
    width expected \<noteq> width actual \<or> height expected \<noteq> height actual \<longrightarrow>
    compareImages ext mimeType (JSBuffer actualBuffer) expectedBuffer options =
      Inr (Some \<lparr>errorMessage =
                   ''Expected an image '' @ decimal (width expected) @ ''px by '' @
                   decimal (height expected) @ ''px, received '' @
                   decimal (width actual) @ ''px by '' @
                   decimal (height actual) @ ''px. '',
                 diff = None\<rparr>)) \<and>
   (compareImages ext mimeType v expectedBuffer options = Inl (Error m) \<longrightarrow>
    (\<exists>ab a e. v = JSBuffer ab \<and> decode ext mimeType ab = Inr a \<and>
       decode ext mimeType expectedBuffer = Inr e \<and>
       width e = width a \<and> height e = height a \<and>
       comparator options \<notin> {None, Some ''pixelmatch'', Some ''ssim-cie94''} \<and>
       m = ''Configuration specifies unknown comparator '' @ [CHR 0x22] @
           template_string (comparator options) @ [CHR 0x22]))"
proof -
  have "\<exists>ab a e. v = JSBuffer ab \<and> decode ext mimeType ab = Inr a \<and>
       decode ext mimeType expectedBuffer = Inr e \<and>
       width e = width a \<and> height e = height a \<and>
       comparator options \<notin> {None, Some ''pixelmatch'', Some ''ssim-cie94''} \<and>
       m = ''Configuration specifies unknown comparator '' @ [CHR 0x22] @
           template_string (comparator options) @ [CHR 0x22]"
    if thrown: "compareImages ext mimeType v expectedBuffer options = Inl (Error m)"
  proof (cases v)
    case (JSBuffer ab)
    from thrown JSBuffer obtain a where a: "decode ext mimeType ab = Inr a"
      by (cases "decode ext mimeType ab") (auto simp: compareImages_def decode_not_Error)
    from thrown JSBuffer a obtain e where e: "decode ext mimeType expectedBuffer = Inr e"
      by (cases "decode ext mimeType expectedBuffer")
         (auto simp: compareImages_def decode_not_Error)
    from thrown JSBuffer a e have same: "width e = width a" "height e = height a"
      by (auto simp: compareImages_def split: if_splits)
    from thrown JSBuffer a e same
    have "count_pixels ext options e a (PNG_new ext (width e) (height e)) = Inl (Error m)"
      by (auto simp: compareImages_def Let_def split: sum.splits)
    from count_pixels_Error [OF this] JSBuffer a e same show ?thesis by simp
  next
    case (JSString s)
    with thrown show ?thesis by (simp add: compareImages_def)
  next
    case JSOther
    with thrown show ?thesis by (simp add: compareImages_def)
  qed
  then show ?thesis by (simp add: compareImages_def)
qed

text \<open>
  With the comparator name \<^verbatim>\<open>bogus\<close>: a string as the actual value, two images of
  different sizes, and two images of the same size, where the \<^verbatim>\<open>Error\<close> is thrown.
\<close>

theorem compareImages_checks_before_dispatch_witness:
  "compareImages sample_externals ''image/png'' (JSString ''abc'') [1, 1, 10, 20, 30, 255]
     bogus_options =
     Inr (Some \<lparr>errorMessage = ''Actual result should be a Buffer.'', diff = None\<rparr>) \<and>
   compareImages sample_externals ''image/png'' (JSBuffer [1, 1, 10, 20, 30, 255])
     [2, 1, 10, 20, 30, 255, 10, 20, 30, 255] bogus_options =
     Inr (Some \<lparr>errorMessage = ''Expected an image 2px by 1px, received 1px by 1px. '',
                diff = None\<rparr>) \<and>
   compareImages sample_externals ''image/png'' (JSBuffer [1, 1, 10, 20, 30, 255])
     [1, 1, 10, 20, 30, 255] bogus_options =
     Inl (Error (''Configuration specifies unknown comparator '' @ [CHR 0x22] @ ''bogus'' @ [CHR 0x22])) \<and>
   (\<exists>a e. decode sample_externals ''image/png'' [1, 1, 10, 20, 30, 255] = Inr a \<and>
      decode sample_externals ''image/png'' [1, 1, 10, 20, 30, 255] = Inr e \<and>
      width e = width a \<and> height e = height a)"
proof -
  note c = compareImages_checks_before_dispatch [where ext = sample_externals
      and mimeType = "''image/png''" and options = bogus_options]
  note only = compareImages_checks_before_dispatch [where ext = sample_externals
      and mimeType = "''image/png''" and options = bogus_options
      and expectedBuffer = "[1, 1, 10, 20, 30, 255]"
      and v = "JSBuffer [1, 1, 10, 20, 30, 255]"
      and m = "''Configuration specifies unknown comparator '' @ [CHR 0x22] @ ''bogus'' @ [CHR 0x22]",
      THEN conjunct2, THEN conjunct2, THEN conjunct2, rule_format, OF sample_bogus_throws]
  have "compareImages sample_externals ''image/png'' (JSString ''abc'') [1, 1, 10, 20, 30, 255]
     bogus_options =
     Inr (Some \<lparr>errorMessage = ''Actual result should be a Buffer.'', diff = None\<rparr>)"
    using c [of "''abc''" "[1, 1, 10, 20, 30, 255]"] by simp
  moreover have "compareImages sample_externals ''image/png'' (JSBuffer [1, 1, 10, 20, 30, 255])
     [2, 1, 10, 20, 30, 255, 10, 20, 30, 255] bogus_options =
     Inr (Some \<lparr>errorMessage = ''Expected an image 2px by 1px, received 1px by 1px. '',
                diff = None\<rparr>)"
    using c [of _ "[2, 1, 10, 20, 30, 255, 10, 20, 30, 255]" "[1, 1, 10, 20, 30, 255]"
        "\<lparr>width = 1, height = 1, data = [10, 20, 30, 255]\<rparr>"
        "\<lparr>width = 2, height = 1, data = [10, 20, 30, 255, 10, 20, 30, 255]\<rparr>"]
    by (simp add: sample_decode_1x1 sample_decode_2x1 decimal_digits)
  moreover have "\<exists>a e. decode sample_externals ''image/png'' [1, 1, 10, 20, 30, 255] = Inr a \<and>
      decode sample_externals ''image/png'' [1, 1, 10, 20, 30, 255] = Inr e \<and>
      width e = width a \<and> height e = height a"
    using only by auto
  ultimately show ?thesis using sample_bogus_throws by simp
qed


subsection \<open>The image comparator: an unknown comparator name\<close>

text \<open>
  C4, as the code has it. The claim lets every call with an unknown comparator name throw.
  The comparator returns a mismatch instead when the actual value is not a Buffer or when
  the two images differ in size, since both checks come first. What holds: when the
  actual value is a Buffer, both buffers decode and the two images have the same size, a
  comparator name other than \<^verbatim>\<open>pixelmatch\<close> and \<^verbatim>\<open>ssim-cie94\<close> makes the comparator throw
  the \<^verbatim>\<open>Error\<close> that quotes the name, whatever the pixels are, and no verdict is returned.
\<close>

theorem compareImages_unknown_comparator:
  assumes "decode ext mimeType actualBuffer = Inr actual"
    and "decode ext mimeType expectedBuffer = Inr expected"
    and "width expected = width actual" and "height expected = height actual"
    and "comparator options = Some c" and "c \<noteq> ''ssim-cie94''" and "c \<noteq> ''pixelmatch''"
  shows "compareImages ext mimeType (JSBuffer actualBuffer) expectedBuffer options =
           Inl (Error (''Configuration specifies unknown comparator '' @ [CHR 0x22] @ c @
                       [CHR 0x22]))"
  using assms
  by (simp add: compareImages_def count_pixels_def nullish_def template_string_def)

text \<open>Two images of one pixel with different pixels, under the name \<^verbatim>\<open>bogus\<close>.\<close>

theorem compareImages_unknown_comparator_witness:
  "compareImages sample_externals ''image/png'' (JSBuffer [1, 1, 10, 20, 30, 255])
     [1, 1, 99, 99, 99, 255] bogus_options =
     Inl (Error (''Configuration specifies unknown comparator '' @ [CHR 0x22] @ ''bogus'' @
                 [CHR 0x22]))"
proof -
  have c: "comparator bogus_options = Some ''bogus''"
    by (simp add: bogus_options_def no_options_def)
  show ?thesis
    using compareImages_unknown_comparator [OF sample_decode_1x1 sample_decode_1x1 _ _ c]
    by simp
qed

text \<open>
  Under the name \<^verbatim>\<open>bogus\<close> the comparator returns a verdict, not an exception, for a
  string as the actual value and for two images of different sizes.
\<close>

theorem compareImages_unknown_comparator_counterexample:
  "compareImages sample_externals ''image/png'' (JSString ''abc'') [1, 1, 10, 20, 30, 255]
     bogus_options =
     Inr (Some \<lparr>errorMessage = ''Actual result should be a Buffer.'', diff = None\<rparr>) \<and>
   compareImages sample_externals ''image/png'' (JSBuffer [1, 1, 10, 20, 30, 255])
     [2, 1, 10, 20, 30, 255, 10, 20, 30, 255] bogus_options =
     Inr (Some \<lparr>errorMessage = ''Expected an image 2px by 1px, received 1px by 1px. '',
                diff = None\<rparr>)"
  by (simp add: compareImages_def sample_decode_1x1 sample_decode_2x1 decimal_digits)

subsection \<open>The image comparator: the cap and the verdict\<close>




subsection \<open>The image comparator: the reported ratio\<close>





subsection \<open>The image comparator: a negative cap\<close>

text \<open>
  C10, as the code has it. The image comparator does not check the range of its options,
  and the claim lets every \<^verbatim>\<open>maxDiffPixels\<close> below 0 give a negative cap and a mismatch.
  With a \<^verbatim>\<open>maxDiffPixelRatio\<close> of NaN, which is not checked either, the cap is
  \<^verbatim>\<open>Math.min(-1, NaN)\<close>, that is NaN, no count exceeds it, and the verdict is a match. What
  holds: with a \<^verbatim>\<open>maxDiffPixels\<close> below 0, and a ratio that is absent or whose product with
  the number of pixels is not NaN, as it is for every finite ratio, the cap is negative and
  two images of the same size are a mismatch for every count, the count 0 of two images
  without a differing pixel included.
\<close>

theorem compareImages_negative_maxDiffPixels:
  assumes "decode ext mimeType actualBuffer = Inr actual"
    and "decode ext mimeType expectedBuffer = Inr expected"
    and "width expected = width actual" and "height expected = height actual"
    and "count_pixels ext options expected actual
           (PNG_new ext (width expected) (height expected)) = Inr (count, written)"
    and "maxDiffPixels options = Some m" and "number_less m (Num 0)"
    and "\<forall>r. maxDiffPixelRatio options = Some r \<longrightarrow>
           times_number (js_times (real (width expected)) (real (height expected))) r \<noteq> NaN"
  shows "number_less (maxDiffPixels_cap options expected) (Num 0) \<and>
         compareImages ext mimeType (JSBuffer actualBuffer) expectedBuffer options =
           Inr (Some \<lparr>errorMessage =
                        decimal count @ '' pixels (ratio '' @
                        toFixed2 (ratio count expected) @
                        '' of all image pixels) are different'',
                      diff = Some (PNG_sync_write ext
                               (PNG_new ext (width expected) (height expected)
                                  \<lparr>data := written\<rparr>))\<rparr>)"
proof -
  have cap: "number_less (maxDiffPixels_cap options expected) (Num 0)"
  proof (cases "maxDiffPixelRatio options")
    case None
    then show ?thesis using assms(6,7) by (simp add: maxDiffPixels_cap_def nullish_def)
  next
    case (Some r)
    then have "times_number (js_times (real (width expected)) (real (height expected))) r
               \<noteq> NaN"
      using assms(8) by simp
    then have "number_less
                 (Math_min m
                    (times_number (js_times (real (width expected)) (real (height expected))) r))
                 (Num 0)"
      using assms(7) by (intro Math_min_negative)
    then show ?thesis using Some assms(6) by (simp add: maxDiffPixels_cap_def)
  qed
  then have "number_less (maxDiffPixels_cap options expected) (Num (real count))"
    by (rule less_negative) simp
  then show ?thesis using cap compareImages_counted [OF assms(1-5)] by simp
qed

text \<open>An image against itself under \<^verbatim>\<open>maxDiffPixels: -1\<close>: no pixel differs, and it fails.\<close>

theorem compareImages_negative_maxDiffPixels_witness:
  "compareImages sample_externals ''image/png'' (JSBuffer [1, 1, 10, 20, 30, 255])
     [1, 1, 10, 20, 30, 255] negative_cap =
     Inr (Some \<lparr>errorMessage = ''0 pixels (ratio 0.00 of all image pixels) are different'',
                diff = Some (1 # 1 # replicate 4 0)\<rparr>)"
proof -
  let ?E = "\<lparr>width = 1, height = 1, data = [10, 20, 30, 255 :: byte]\<rparr>"
  have c: "comparator negative_cap = None" by (simp add: negative_cap_def no_options_def)
  have cnt: "count_pixels sample_externals negative_cap ?E ?E
               (PNG_new sample_externals (width ?E) (height ?E)) = Inr (0, replicate 4 0)"
    by (simp add: sample_count_pixels [OF c] sample_externals_simps)
  have m: "maxDiffPixels negative_cap = Some (Num (- 1))"
    by (simp add: negative_cap_def no_options_def)
  have neg: "number_less (Num (- 1)) (Num 0)" by simp
  have r: "\<forall>r. maxDiffPixelRatio negative_cap = Some r \<longrightarrow>
             times_number (js_times (real (width ?E)) (real (height ?E))) r \<noteq> NaN"
    by (simp add: negative_cap_def no_options_def)
  show ?thesis
    using compareImages_negative_maxDiffPixels
      [OF sample_decode_1x1 sample_decode_1x1 _ _ cnt m neg r]
    unfolding ratio_zero_of_one
    by (simp add: decimal_digits sample_externals_simps)
qed

text \<open>
  An image against itself under \<^verbatim>\<open>maxDiffPixels: -1\<close> and \<^verbatim>\<open>maxDiffPixelRatio: NaN\<close>: the
  cap is NaN and the verdict is a match.
\<close>

theorem compareImages_negative_maxDiffPixels_counterexample:
  "compareImages sample_externals ''image/png'' (JSBuffer [1, 1, 10, 20, 30, 255])
     [1, 1, 10, 20, 30, 255] negative_cap_NaN_ratio = Inr None \<and>
   maxDiffPixels negative_cap_NaN_ratio = Some (Num (- 1)) \<and>
   maxDiffPixels_cap negative_cap_NaN_ratio
     \<lparr>width = 1, height = 1, data = [10, 20, 30, 255]\<rparr> = NaN"
proof -
  let ?E = "\<lparr>width = 1, height = 1, data = [10, 20, 30, 255 :: byte]\<rparr>"
  have c: "comparator negative_cap_NaN_ratio = None"
    by (simp add: negative_cap_NaN_ratio_def no_options_def)
  have cnt: "count_pixels sample_externals negative_cap_NaN_ratio ?E ?E
               (PNG_new sample_externals (width ?E) (height ?E)) = Inr (0, replicate 4 0)"
    by (simp add: sample_count_pixels [OF c] sample_externals_simps)
  have cap: "maxDiffPixels_cap negative_cap_NaN_ratio ?E = NaN"
    by (simp add: maxDiffPixels_cap_def negative_cap_NaN_ratio_def no_options_def)
  show ?thesis
    using compareImages_counted [OF sample_decode_1x1 sample_decode_1x1 _ _ cnt] cap
    by (simp add: negative_cap_NaN_ratio_def no_options_def)
qed

subsection \<open>A buffer against itself\<close>

text \<open>
  C8, as the code has it. The claim lets a buffer match itself under every content type.
  Under \<^verbatim>\<open>text/plain\<close> the text comparator is selected, and it rejects every actual value
  that is not a string. What holds: under every content type other than the two image
  types and \<^verbatim>\<open>text/plain\<close> a buffer matches itself; under an image type it matches
  itself, with the default options, when the codec decodes it and the kernel finds no
  differing pixel between the image and itself; under \<^verbatim>\<open>text/plain\<close> the verdict is the
  mismatch \<^verbatim>\<open>Actual result should be a string\<close>.
\<close>

theorem same_buffer_verdicts:
  "(mimeType \<notin> {''image/png'', ''image/jpeg'', ''text/plain''} \<longrightarrow>
    getComparator ext mimeType (JSBuffer b) b options = Inr None) \<and>
   (mimeType \<in> {''image/png'', ''image/jpeg''} \<longrightarrow>
    decode ext mimeType b = Inr img \<longrightarrow>
    pixelmatch ext (data img) (data img) (data (PNG_new ext (width img) (height img)))
      (width img) (height img) (Num (fl (2 / 10))) = Inr (0, written) \<longrightarrow>
    getComparator ext mimeType (JSBuffer b) b no_options = Inr None) \<and>
   getComparator ext ''text/plain'' (JSBuffer b) b options =
     Inr (Some \<lparr>errorMessage = ''Actual result should be a string'', diff = None\<rparr>)"
proof (intro conjI impI)
  assume "mimeType \<notin> {''image/png'', ''image/jpeg'', ''text/plain''}"
  then show "getComparator ext mimeType (JSBuffer b) b options = Inr None"
    by (simp add: getComparator_def compareBuffersOrStrings_def Buffer_compare_eq_0_iff)
next
  assume mime: "mimeType \<in> {''image/png'', ''image/jpeg''}"
    and dec: "decode ext mimeType b = Inr img"
    and same: "pixelmatch ext (data img) (data img)
                 (data (PNG_new ext (width img) (height img)))
                 (width img) (height img) (Num (fl (2 / 10))) = Inr (0, written)"
  have sel: "getComparator ext mimeType = compareImages ext mimeType"
    using mime by (auto simp: getComparator_def)
  have cnt: "count_pixels ext no_options img img (PNG_new ext (width img) (height img)) =
             Inr (0, written)"
    using same by (simp add: count_pixels_def no_options_def nullish_def external_def)
  have cap: "maxDiffPixels_cap no_options img = Num 0"
    by (simp add: maxDiffPixels_cap_def no_options_def nullish_def)
  show "getComparator ext mimeType (JSBuffer b) b no_options = Inr None"
    unfolding sel using compareImages_counted [OF dec dec _ _ cnt] cap by simp
next
  show "getComparator ext ''text/plain'' (JSBuffer b) b options =
     Inr (Some \<lparr>errorMessage = ''Actual result should be a string'', diff = None\<rparr>)"
    by (simp add: getComparator_def compareText_def)
qed

text \<open>A buffer against itself under an unknown content type and under both image types.\<close>

theorem same_buffer_verdicts_witness:
  "getComparator sample_externals ''application/pdf'' (JSBuffer [1, 2, 3]) [1, 2, 3] no_options =
     Inr None \<and>
   getComparator sample_externals ''image/png'' (JSBuffer [1, 1, 10, 20, 30, 255])
     [1, 1, 10, 20, 30, 255] no_options = Inr None \<and>
   getComparator sample_externals ''image/jpeg'' (JSBuffer [1, 1, 10, 20, 30, 255])
     [1, 1, 10, 20, 30, 255] no_options = Inr None"
proof -
  let ?E = "\<lparr>width = 1, height = 1, data = [10, 20, 30, 255 :: byte]\<rparr>"
  have k: "pixelmatch sample_externals (data ?E) (data ?E)
             (data (PNG_new sample_externals (width ?E) (height ?E)))
             (width ?E) (height ?E) (Num (fl (2 / 10))) = Inr (0, replicate 4 0)"
    by (simp add: sample_externals_simps sample_kernel_def)
  have "getComparator sample_externals ''application/pdf'' (JSBuffer [1, 2, 3]) [1, 2, 3]
          no_options = Inr None"
    using same_buffer_verdicts [of "''application/pdf''" sample_externals "[1, 2, 3]" no_options]
    by simp
  moreover have "getComparator sample_externals ''image/png'' (JSBuffer [1, 1, 10, 20, 30, 255])
     [1, 1, 10, 20, 30, 255] no_options = Inr None"
    using same_buffer_verdicts [of "''image/png''" sample_externals "[1, 1, 10, 20, 30, 255]"
        _ ?E "replicate 4 0"] sample_decode_1x1 [of 10 20 30 255] k
    by simp
  moreover have "getComparator sample_externals ''image/jpeg'' (JSBuffer [1, 1, 10, 20, 30, 255])
     [1, 1, 10, 20, 30, 255] no_options = Inr None"
    using same_buffer_verdicts [of "''image/jpeg''" sample_externals "[1, 1, 10, 20, 30, 255]"
        _ ?E "replicate 4 0"] sample_decode_jpeg_1x1 [of 10 20 30 255] k
    by simp
  ultimately show ?thesis by simp
qed

text \<open>Under \<^verbatim>\<open>text/plain\<close> a buffer does not match itself.\<close>

theorem same_buffer_counterexample:
  "getComparator sample_externals ''text/plain'' (JSBuffer [0x61, 0x62, 0x63])
     [0x61, 0x62, 0x63] no_options =
   Inr (Some \<lparr>errorMessage = ''Actual result should be a string'', diff = None\<rparr>)"
  by (simp add: getComparator_def compareText_def)


end
